theory Spec2Isabelle
  imports Main "HOL-Library.Word"
begin

unbundle bit_operations_syntax

section \<open>Python values, exceptions and strings\<close>

text \<open>
  The SDK (\<^verbatim>\<open>python-sdk/image_enhancer_sdk.py\<close>) reads files as \<^verbatim>\<open>bytes\<close>, builds
  Python strings and exchanges JSON values with the server. Bytes are 8-bit words, a Python
  \<^verbatim>\<open>str\<close> is a \<^typ>\<open>string\<close>, and an exception is a value carrying its class and the text
  that \<^verbatim>\<open>str(e)\<close> gives. Every class below derives from \<^verbatim>\<open>Exception\<close>, which is what the
  handlers of the SDK catch.
\<close>

type_synonym byte = "8 word"

datatype exn_kind = OSError | RequestException | JSONDecodeError | ValueError | TypeError
  | AttributeError | KeyError | BinasciiError

datatype exn = Exn exn_kind string

fun str_exn :: "exn \<Rightarrow> string" where
  "str_exn (Exn k msg) = msg"

text \<open>Decimal rendering of a number inside an f-string.\<close>

fun str_nat :: "nat \<Rightarrow> string" where
  "str_nat n =
     (if n < 10 then [char_of (48 + n)]
      else str_nat (n div 10) @ [char_of (48 + n mod 10)])"

declare str_nat.simps [simp del]

definition str_int :: "int \<Rightarrow> string" where
  "str_int i = (if i < 0 then CHR ''-'' # str_nat (nat (- i)) else str_nat (nat i))"

text \<open>\<^verbatim>\<open>k in s\<close> on two strings: \<open>k\<close> occurs in \<open>s\<close> as a contiguous run.\<close>

fun str_contains :: "string \<Rightarrow> string \<Rightarrow> bool" where
  "str_contains k [] = (k = [])"
| "str_contains k (c # cs) = (take (length k) (c # cs) = k \<or> str_contains k cs)"

definition startswith :: "string \<Rightarrow> string \<Rightarrow> bool" where
  "startswith s p = (take (length p) s = p)"

text \<open>\<^verbatim>\<open>s.rstrip(ch)\<close> for a single character: every trailing copy is dropped.\<close>

definition rstrip :: "char \<Rightarrow> string \<Rightarrow> string" where
  "rstrip ch s = rev (dropWhile (\<lambda>c. c = ch) (rev s))"

text \<open>
  \<^verbatim>\<open>s.split(sep, 1)\<close>: one element when the separator is absent, otherwise the text
  before the first separator and everything after it.
\<close>

fun split_first :: "char \<Rightarrow> string \<Rightarrow> (string \<times> string) option" where
  "split_first sep [] = None"
| "split_first sep (c # cs) =
     (if c = sep then Some ([], cs)
      else (case split_first sep cs of None \<Rightarrow> None | Some (h, d) \<Rightarrow> Some (c # h, d)))"

definition split1 :: "char \<Rightarrow> string \<Rightarrow> string list" where
  "split1 sep s = (case split_first sep s of None \<Rightarrow> [s] | Some (h, d) \<Rightarrow> [h, d])"

section \<open>Base64 (the standard library's \<^verbatim>\<open>base64.b64encode\<close> and \<^verbatim>\<open>base64.b64decode\<close>)\<close>

text \<open>
  \<^verbatim>\<open>b64encode\<close> is RFC 4648 with the standard alphabet and \<^verbatim>\<open>=\<close> padding: three bytes give
  four characters. \<^verbatim>\<open>b64decode(s)\<close> with its default \<^verbatim>\<open>validate=False\<close> first requires an
  ASCII string and then runs CPython's \<^verbatim>\<open>binascii.a2b_base64\<close> loop, which skips every
  character outside the alphabet, stops at a complete pad sequence and rejects a dangling
  group.
\<close>

definition table_b2a_base64 :: string where
  "table_b2a_base64 = ''ABCDEFGHIJKLMNOPQRSTUVWXYZabcdefghijklmnopqrstuvwxyz0123456789+/''"

definition BASE64_PAD :: char where
  "BASE64_PAD = CHR ''=''"

definition b2a :: "byte \<Rightarrow> char" where
  "b2a v = table_b2a_base64 ! unat v"

fun b64encode :: "byte list \<Rightarrow> string" where
  "b64encode (a # b # c # rest) =
     [b2a (drop_bit 2 a),
      b2a (push_bit 4 (a AND 3) OR drop_bit 4 b),
      b2a (push_bit 2 (b AND 15) OR drop_bit 6 c),
      b2a (c AND 63)] @ b64encode rest"
| "b64encode [a, b] =
     [b2a (drop_bit 2 a),
      b2a (push_bit 4 (a AND 3) OR drop_bit 4 b),
      b2a (push_bit 2 (b AND 15)),
      BASE64_PAD]"
| "b64encode [a] =
     [b2a (drop_bit 2 a), b2a (push_bit 4 (a AND 3)), BASE64_PAD, BASE64_PAD]"
| "b64encode [] = []"

fun index_of :: "'a \<Rightarrow> 'a list \<Rightarrow> nat" where
  "index_of x [] = 0"
| "index_of x (y # ys) = (if x = y then 0 else Suc (index_of x ys))"

text \<open>The reverse table: the six-bit value of an alphabet character, nothing for any other.\<close>

definition a2b :: "char \<Rightarrow> byte option" where
  "a2b c =
     (let i = index_of c table_b2a_base64 in if i < 64 then Some (word_of_nat i) else None)"

fun a2b_base64 :: "nat \<Rightarrow> byte \<Rightarrow> nat \<Rightarrow> byte list \<Rightarrow> string \<Rightarrow> exn + byte list" where
  "a2b_base64 quad_pos leftchar pads out [] =
     (if quad_pos \<noteq> 0 then
        (if quad_pos = 1 then
           Inl (Exn BinasciiError
                  (''Invalid base64-encoded string: number of data characters (''
                   @ str_nat (length out div 3 * 4 + 1)
                   @ '') cannot be 1 more than a multiple of 4''))
         else Inl (Exn BinasciiError ''Incorrect padding''))
      else Inr out)"
| "a2b_base64 quad_pos leftchar pads out (this_ch # rest) =
     (if this_ch = BASE64_PAD then
        (if 2 \<le> quad_pos \<and> 4 \<le> quad_pos + (pads + 1) then Inr out
         else a2b_base64 quad_pos leftchar (if 2 \<le> quad_pos then pads + 1 else pads) out rest)
      else
        (case a2b this_ch of
           None \<Rightarrow> a2b_base64 quad_pos leftchar pads out rest
         | Some v \<Rightarrow>
             (if quad_pos = 0 then a2b_base64 1 v 0 out rest
              else if quad_pos = 1 then
                a2b_base64 2 (v AND 15) 0 (out @ [push_bit 2 leftchar OR drop_bit 4 v]) rest
              else if quad_pos = 2 then
                a2b_base64 3 (v AND 3) 0 (out @ [push_bit 4 leftchar OR drop_bit 2 v]) rest
              else a2b_base64 0 0 0 (out @ [push_bit 6 leftchar OR v]) rest)))"

definition is_ascii :: "char \<Rightarrow> bool" where
  "is_ascii c = ((of_char c :: nat) < 128)"

definition b64decode :: "string \<Rightarrow> exn + byte list" where
  "b64decode s =
     (if list_all is_ascii s then a2b_base64 0 0 0 [] s
      else Inl (Exn ValueError ''string argument should contain only ASCII characters''))"

text \<open>
  The data URI built by \<^verbatim>\<open>enhance_image\<close> and \<^verbatim>\<open>classify_image\<close> (lines 57-58, 132-133)
  and the inline branch of \<^verbatim>\<open>save_enhanced_image\<close> (lines 236-237): the unpacking
  \<^verbatim>\<open>header, data = enhanced_url.split(',', 1)\<close> raises when there is no comma.
\<close>

definition image_data_url :: "byte list \<Rightarrow> string" where
  "image_data_url bytes = ''data:image/jpeg;base64,'' @ b64encode bytes"

definition decode_data_url :: "string \<Rightarrow> exn + byte list" where
  "decode_data_url enhanced_url =
     (case split1 CHR '','' enhanced_url of
        [header, data] \<Rightarrow> b64decode data
      | _ \<Rightarrow> Inl (Exn ValueError ''not enough values to unpack (expected 2, got 1)''))"

section \<open>JSON values and the operators the SDK applies to them\<close>

text \<open>
  \<^verbatim>\<open>response.json()\<close> may give any JSON value, not only an object, so results are values of
  \<open>json\<close>. An object is an association list read with \<^const>\<open>map_of\<close>. A number is a Python
  \<^verbatim>\<open>int\<close> or a \<^verbatim>\<open>float\<close>; a float is a double (mantissa and binary exponent), an infinity
  (\<open>True\<close> for the positive one) or not-a-number, which \<^verbatim>\<open>json\<close> also reads.
\<close>

datatype py_float = Double int int | Infinity bool | NaN

datatype json = JNull | JBool bool | JInt int | JFloat py_float | JStr string | JArr "json list"
  | JObj "(string \<times> json) list"

fun type_name :: "json \<Rightarrow> string" where
  "type_name JNull = ''NoneType''"
| "type_name (JBool b) = ''bool''"
| "type_name (JInt n) = ''int''"
| "type_name (JFloat x) = ''float''"
| "type_name (JStr s) = ''str''"
| "type_name (JArr xs) = ''list''"
| "type_name (JObj kvs) = ''dict''"

text \<open>\<^verbatim>\<open>key in v\<close> for a string key: membership in a dict's keys, in a list's elements, as a
  substring of a string; a \<^verbatim>\<open>TypeError\<close> on anything else.\<close>

fun py_in :: "string \<Rightarrow> json \<Rightarrow> exn + bool" where
  "py_in k (JObj kvs) = Inr (map_of kvs k \<noteq> None)"
| "py_in k (JArr xs) = Inr (List.member xs (JStr k))"
| "py_in k (JStr s) = Inr (str_contains k s)"
| "py_in k v = Inl (Exn TypeError (''argument of type '' @ [CHR 0x27] @ type_name v @ [CHR 0x27]
                                  @ '' is not iterable''))"

text \<open>\<^verbatim>\<open>v[key]\<close> for a string key.\<close>

fun py_getitem :: "json \<Rightarrow> string \<Rightarrow> exn + json" where
  "py_getitem (JObj kvs) k =
     (case map_of kvs k of
        Some v \<Rightarrow> Inr v
      | None \<Rightarrow> Inl (Exn KeyError ([CHR 0x27] @ k @ [CHR 0x27])))"
| "py_getitem (JArr xs) k = Inl (Exn TypeError ''list indices must be integers or slices, not str'')"
| "py_getitem (JStr s) k = Inl (Exn TypeError (''string indices must be integers, not ''
                                               @ [CHR 0x27] @ ''str'' @ [CHR 0x27]))"
| "py_getitem v k = Inl (Exn TypeError ([CHR 0x27] @ type_name v @ [CHR 0x27]
                                      @ '' object is not subscriptable''))"

text \<open>\<^verbatim>\<open>d or {}\<close> on an optional dict: \<^verbatim>\<open>None\<close> and the empty dict are falsy.\<close>

fun or_empty_dict :: "(string \<times> json) list option \<Rightarrow> json" where
  "or_empty_dict None = JObj []"
| "or_empty_dict (Some d) = (if d = [] then JObj [] else JObj d)"

section \<open>The world outside the SDK\<close>

text \<open>
  Files, the HTTP session and the clock are outside the repository. They are parameters:
  each call takes the current world and returns what Python would see (a value or a raised
  exception) with the next world, so a server may answer the same request differently each
  time. \<open>resp_json\<close> is what \<^verbatim>\<open>response.json()\<close> does on that response. \<open>path_name\<close> and
  \<open>path_join\<close> stand for \<^verbatim>\<open>Path(p).name\<close> and \<^verbatim>\<open>dir / name\<close> of \<^verbatim>\<open>pathlib\<close>.
\<close>

record response =
  status_code :: int
  resp_text :: string
  resp_content :: "byte list"
  resp_json :: "exn + json"

record 'w env =
  open_rb :: "string \<Rightarrow> 'w \<Rightarrow> (exn + byte list) \<times> 'w"
  open_wb :: "string \<Rightarrow> byte list \<Rightarrow> 'w \<Rightarrow> (exn + unit) \<times> 'w"
  session_post :: "string \<Rightarrow> json \<Rightarrow> nat \<Rightarrow> 'w \<Rightarrow> (exn + response) \<times> 'w"
  session_get :: "string \<Rightarrow> 'w \<Rightarrow> (exn + response) \<times> 'w"
  time_sleep :: "nat \<Rightarrow> 'w \<Rightarrow> 'w"
  path_name :: "string \<Rightarrow> string"
  path_join :: "string \<Rightarrow> string \<Rightarrow> string"

text \<open>
  Every effect is also recorded, oldest first, so that a claim can say which requests were
  made and how often the batch slept.
\<close>

datatype level = INFO | ERROR

datatype event =
    Open_rb string
  | Open_wb string "byte list"
  | Post string json nat
  | Get string
  | Sleep nat
  | Log level string
  | Print string

type_synonym 'w state = "'w \<times> event list"

fun do_open_rb :: "'w env \<Rightarrow> string \<Rightarrow> 'w state \<Rightarrow> (exn + byte list) \<times> 'w state" where
  "do_open_rb E path (w, tr) =
     (case open_rb E path w of (r, w') \<Rightarrow> (r, (w', tr @ [Open_rb path])))"

fun do_open_wb :: "'w env \<Rightarrow> string \<Rightarrow> byte list \<Rightarrow> 'w state \<Rightarrow> (exn + unit) \<times> 'w state" where
  "do_open_wb E path bytes (w, tr) =
     (case open_wb E path bytes w of (r, w') \<Rightarrow> (r, (w', tr @ [Open_wb path bytes])))"

fun do_post :: "'w env \<Rightarrow> string \<Rightarrow> json \<Rightarrow> nat \<Rightarrow> 'w state \<Rightarrow> (exn + response) \<times> 'w state" where
  "do_post E url payload timeout (w, tr) =
     (case session_post E url payload timeout w of
        (r, w') \<Rightarrow> (r, (w', tr @ [Post url payload timeout])))"

fun do_get :: "'w env \<Rightarrow> string \<Rightarrow> 'w state \<Rightarrow> (exn + response) \<times> 'w state" where
  "do_get E url (w, tr) =
     (case session_get E url w of (r, w') \<Rightarrow> (r, (w', tr @ [Get url])))"

fun do_sleep :: "'w env \<Rightarrow> nat \<Rightarrow> 'w state \<Rightarrow> 'w state" where
  "do_sleep E secs (w, tr) = (time_sleep E secs w, tr @ [Sleep secs])"

fun logger :: "level \<Rightarrow> string \<Rightarrow> 'w state \<Rightarrow> 'w state" where
  "logger lvl msg (w, tr) = (w, tr @ [Log lvl msg])"


section \<open>The SDK object and its constructor\<close>

text \<open>
  \<^verbatim>\<open>__init__\<close> (lines 20-22) strips the base URL and chooses the admin key:
  \<^verbatim>\<open>admin_key or os.getenv('ADMIN_KEY', 'dev-admin-key')\<close>. \<^verbatim>\<open>None\<close> and the empty string are
  the falsy values of an optional string; \<open>environ\<close> is the process environment.
\<close>

record sdk =
  base_url :: string
  admin_key :: string

definition getenv :: "(string \<Rightarrow> string option) \<Rightarrow> string \<Rightarrow> string \<Rightarrow> string" where
  "getenv environ name dflt = (case environ name of Some v \<Rightarrow> v | None \<Rightarrow> dflt)"

definition init :: "(string \<Rightarrow> string option) \<Rightarrow> string \<Rightarrow> string option \<Rightarrow> sdk" where
  "init environ base_url_arg admin_key_arg =
     \<lparr>base_url = rstrip CHR ''/'' base_url_arg,
      admin_key =
        (case admin_key_arg of
           None \<Rightarrow> getenv environ ''ADMIN_KEY'' ''dev-admin-key''
         | Some k \<Rightarrow> if k \<noteq> [] then k else getenv environ ''ADMIN_KEY'' ''dev-admin-key'')\<rparr>"

section \<open>The mediator operations\<close>

text \<open>
  Each operation is a \<^verbatim>\<open>try\<close> body, in which any step may raise (\<open>Inl\<close>), wrapped by the
  \<^verbatim>\<open>except Exception\<close> handler of the source. The wrapped operation still has the type of
  a computation that may raise, so that "nothing propagates" is a statement to prove.
\<close>

definition error_dict :: "string \<Rightarrow> json" where
  "error_dict msg = JObj [(''error'', JStr msg)]"

definition enhance_image_try ::
  "'w env \<Rightarrow> sdk \<Rightarrow> string \<Rightarrow> string \<Rightarrow> (string \<times> json) list option \<Rightarrow> 'w state
     \<Rightarrow> (exn + json) \<times> 'w state" where
  "enhance_image_try E self image_path model options s =
     (case do_open_rb E image_path s of
        (Inl e, s1) \<Rightarrow> (Inl e, s1)
      | (Inr bytes, s1) \<Rightarrow>
          (let payload = JObj [(''image'', JStr (image_data_url bytes)),
                               (''model'', JStr model),
                               (''options'', or_empty_dict options)];
               s2 = logger INFO (''Enhancing image: '' @ image_path) s1
           in case do_post E (base_url self @ ''/api/enhance'') payload 300 s2 of
                (Inl e, s3) \<Rightarrow> (Inl e, s3)
              | (Inr response, s3) \<Rightarrow>
                  if status_code response = 200 then
                    (case resp_json response of
                       Inl e \<Rightarrow> (Inl e, s3)
                     | Inr result \<Rightarrow>
                         (Inr result, logger INFO ''Image enhancement completed successfully'' s3))
                  else
                    (let error_msg = ''Enhancement failed: '' @ str_int (status_code response)
                                     @ '' - '' @ resp_text response
                     in (Inr (error_dict error_msg), logger ERROR error_msg s3))))"

definition enhance_image ::
  "'w env \<Rightarrow> sdk \<Rightarrow> string \<Rightarrow> string \<Rightarrow> (string \<times> json) list option \<Rightarrow> 'w state
     \<Rightarrow> (exn + json) \<times> 'w state" where
  "enhance_image E self image_path model options s =
     (case enhance_image_try E self image_path model options s of
        (Inr result, s') \<Rightarrow> (Inr result, s')
      | (Inl e, s') \<Rightarrow>
          (let error_msg = ''Error enhancing image: '' @ str_exn e
           in (Inr (error_dict error_msg), logger ERROR error_msg s')))"

definition classify_image_try ::
  "'w env \<Rightarrow> sdk \<Rightarrow> string \<Rightarrow> 'w state \<Rightarrow> (exn + json) \<times> 'w state" where
  "classify_image_try E self image_path s =
     (case do_open_rb E image_path s of
        (Inl e, s1) \<Rightarrow> (Inl e, s1)
      | (Inr bytes, s1) \<Rightarrow>
          (let payload = JObj [(''image'', JStr (image_data_url bytes))]
           in case do_post E (base_url self @ ''/api/classify'') payload 60 s1 of
                (Inl e, s2) \<Rightarrow> (Inl e, s2)
              | (Inr response, s2) \<Rightarrow>
                  if status_code response = 200 then (resp_json response, s2)
                  else (Inr (error_dict (''Classification failed: ''
                                         @ str_int (status_code response))), s2)))"

definition classify_image ::
  "'w env \<Rightarrow> sdk \<Rightarrow> string \<Rightarrow> 'w state \<Rightarrow> (exn + json) \<times> 'w state" where
  "classify_image E self image_path s =
     (case classify_image_try E self image_path s of
        (Inr result, s') \<Rightarrow> (Inr result, s')
      | (Inl e, s') \<Rightarrow> (Inr (error_dict (''Error classifying image: '' @ str_exn e)), s'))"

definition admin_command_try ::
  "'w env \<Rightarrow> sdk \<Rightarrow> string \<Rightarrow> (string \<times> json) list option \<Rightarrow> 'w state
     \<Rightarrow> (exn + json) \<times> 'w state" where
  "admin_command_try E self command args s =
     (let payload = JObj [(''command'', JStr command),
                          (''args'', or_empty_dict args),
                          (''adminKey'', JStr (admin_key self))]
      in case do_post E (base_url self @ ''/api/admin'') payload 60 s of
           (Inl e, s1) \<Rightarrow> (Inl e, s1)
         | (Inr response, s1) \<Rightarrow>
             if status_code response = 200 then (resp_json response, s1)
             else (Inr (error_dict (''Admin command failed: '' @ str_int (status_code response)
                                    @ '' - '' @ resp_text response)), s1))"

definition admin_command ::
  "'w env \<Rightarrow> sdk \<Rightarrow> string \<Rightarrow> (string \<times> json) list option \<Rightarrow> 'w state
     \<Rightarrow> (exn + json) \<times> 'w state" where
  "admin_command E self command args s =
     (case admin_command_try E self command args s of
        (Inr result, s') \<Rightarrow> (Inr result, s')
      | (Inl e, s') \<Rightarrow>
          (Inr (error_dict (''Error executing admin command: '' @ str_exn e)), s'))"

section \<open>Batch enhancement\<close>

text \<open>
  \<^verbatim>\<open>batch_enhance\<close> (lines 101-118). The loop carries the index \<open>i\<close> of
  \<^verbatim>\<open>enumerate\<close>, the paths still to do and the list built so far; \<open>n\<close> is
  \<^verbatim>\<open>len(image_paths)\<close>. The test \<^verbatim>\<open>i < len(image_paths) - 1\<close> is on Python integers.
  \<open>max_concurrent\<close> is a parameter, as in the source.
\<close>

record batch_item =
  item_image_path :: string
  item_result :: json

fun batch_loop ::
  "'w env \<Rightarrow> sdk \<Rightarrow> nat \<Rightarrow> string \<Rightarrow> (string \<times> json) list option \<Rightarrow> nat \<Rightarrow> string list
     \<Rightarrow> batch_item list \<Rightarrow> 'w state \<Rightarrow> (exn + batch_item list) \<times> 'w state" where
  "batch_loop E self n model options i [] results s = (Inr results, s)"
| "batch_loop E self n model options i (image_path # rest) results s =
     (let s1 = logger INFO (''Processing image '' @ str_nat (i + 1) @ ''/'' @ str_nat n
                            @ '': '' @ image_path) s
      in case enhance_image E self image_path model options s1 of
           (Inl e, s2) \<Rightarrow> (Inl e, s2)
         | (Inr result, s2) \<Rightarrow>
             batch_loop E self n model options (i + 1) rest
               (results @ [\<lparr>item_image_path = image_path, item_result = result\<rparr>])
               (if int i < int n - 1 then do_sleep E 1 s2 else s2))"

definition batch_enhance ::
  "'w env \<Rightarrow> sdk \<Rightarrow> string list \<Rightarrow> string \<Rightarrow> (string \<times> json) list option \<Rightarrow> int
     \<Rightarrow> 'w state \<Rightarrow> (exn + batch_item list) \<times> 'w state" where
  "batch_enhance E self image_paths model options max_concurrent s =
     (let s0 = logger INFO (''Starting batch enhancement of '' @ str_nat (length image_paths)
                            @ '' images'') s
      in case batch_loop E self (length image_paths) model options 0 image_paths [] s0 of
           (Inl e, s1) \<Rightarrow> (Inl e, s1)
         | (Inr results, s1) \<Rightarrow> (Inr results, logger INFO ''Batch enhancement completed'' s1))"

section \<open>Saving an enhanced image\<close>

text \<open>
  \<^verbatim>\<open>save_enhanced_image\<close> (lines 227-254). \<^verbatim>\<open>startswith\<close> exists on strings only, so any
  other value of the field raises \<^verbatim>\<open>AttributeError\<close> inside the \<^verbatim>\<open>try\<close>.
\<close>

definition write_image ::
  "'w env \<Rightarrow> string \<Rightarrow> byte list \<Rightarrow> 'w state \<Rightarrow> (exn + bool) \<times> 'w state" where
  "write_image E output_path image_data s =
     (case do_open_wb E output_path image_data s of
        (Inl e, s1) \<Rightarrow> (Inl e, s1)
      | (Inr u, s1) \<Rightarrow> (Inr True, logger INFO (''Enhanced image saved to: '' @ output_path) s1))"

definition save_enhanced_image_try ::
  "'w env \<Rightarrow> sdk \<Rightarrow> json \<Rightarrow> string \<Rightarrow> 'w state \<Rightarrow> (exn + bool) \<times> 'w state" where
  "save_enhanced_image_try E self result output_path s =
     (case py_in ''enhancedImage'' result of
        Inl e \<Rightarrow> (Inl e, s)
      | Inr present \<Rightarrow>
          if \<not> present then (Inr False, logger ERROR ''No enhanced image in result'' s)
          else
            (case py_getitem result ''enhancedImage'' of
               Inl e \<Rightarrow> (Inl e, s)
             | Inr (JStr enhanced_url) \<Rightarrow>
                 if startswith enhanced_url ''data:'' then
                   (case decode_data_url enhanced_url of
                      Inl e \<Rightarrow> (Inl e, s)
                    | Inr image_data \<Rightarrow> write_image E output_path image_data s)
                 else
                   (case do_get E enhanced_url s of
                      (Inl e, s1) \<Rightarrow> (Inl e, s1)
                    | (Inr response, s1) \<Rightarrow>
                        if status_code response \<noteq> 200 then
                          (Inr False,
                           logger ERROR (''Failed to download enhanced image: ''
                                         @ str_int (status_code response)) s1)
                        else write_image E output_path (resp_content response) s1)
             | Inr v \<Rightarrow>
                 (Inl (Exn AttributeError ([CHR 0x27] @ type_name v @ [CHR 0x27]
                         @ '' object has no attribute '' @ [CHR 0x27] @ ''startswith''
                         @ [CHR 0x27])), s)))"

definition save_enhanced_image ::
  "'w env \<Rightarrow> sdk \<Rightarrow> json \<Rightarrow> string \<Rightarrow> 'w state \<Rightarrow> bool \<times> 'w state" where
  "save_enhanced_image E self result output_path s =
     (case save_enhanced_image_try E self result output_path s of
        (Inr b, s') \<Rightarrow> (b, s')
      | (Inl e, s') \<Rightarrow> (False, logger ERROR (''Error saving enhanced image: '' @ str_exn e) s'))"

section \<open>The batch command of the CLI\<close>





fun is_sleep :: "event \<Rightarrow> bool" where
  "is_sleep (Sleep n) = True"
| "is_sleep e = False"

fun is_network :: "event \<Rightarrow> bool" where
  "is_network (Get url) = True"
| "is_network (Post url payload timeout) = True"
| "is_network e = False"

fun is_log :: "event \<Rightarrow> bool" where
  "is_log (Log lvl msg) = True"
| "is_log e = False"

text \<open>A six-bit value, as stored in one base64 character.\<close>

definition sextet :: "byte \<Rightarrow> bool" where
  "sextet v = (take_bit 6 v = v)"

fun post_urls :: "event list \<Rightarrow> string list" where
  "post_urls [] = []"
| "post_urls (Post url payload timeout # es) = url # post_urls es"
| "post_urls (e # es) = post_urls es"

definition endswith :: "string \<Rightarrow> string \<Rightarrow> bool" where
  "endswith s suffix = (drop (length s - length suffix) s = suffix \<and> length suffix \<le> length s)"

text \<open>
  A batch run as the specification words it, to be compared with the loop of the source.
  \<open>is_batch_run E self model options n i paths s items s'\<close>: starting in state \<open>s\<close> with
  \<open>i\<close> items done, there is one item per path, in order; each item holds its path and the
  result that \<^verbatim>\<open>enhance_image\<close> returned for that path in the state the run had reached
  (after the progress line was logged); a one-second pause follows each item that is not
  the last; and \<open>s'\<close> is the state after the last item.
\<close>

fun is_batch_run ::
  "'w env \<Rightarrow> sdk \<Rightarrow> string \<Rightarrow> (string \<times> json) list option \<Rightarrow> nat \<Rightarrow> nat \<Rightarrow> string list
     \<Rightarrow> 'w state \<Rightarrow> batch_item list \<Rightarrow> 'w state \<Rightarrow> bool" where
  "is_batch_run E self model options n i [] s items s' = (items = [] \<and> s' = s)"
| "is_batch_run E self model options n i (p # ps) s [] s' = False"
| "is_batch_run E self model options n i (p # ps) s (item # items) s' =
     (let enhanced = enhance_image E self p model options
                       (logger INFO (''Processing image '' @ str_nat (i + 1) @ ''/'' @ str_nat n
                                     @ '': '' @ p) s)
      in item_image_path item = p
         \<and> fst enhanced = Inr (item_result item)
         \<and> is_batch_run E self model options n (i + 1) ps
             (if ps = [] then snd enhanced else do_sleep E 1 (snd enhanced)) items s')"


text \<open>
  Each item starts by opening its file, so the file openings and the pauses of a batch,
  in order, show where the pauses fall: one between two consecutive items, none at the end.
\<close>

fun is_open_or_sleep :: "event \<Rightarrow> bool" where
  "is_open_or_sleep (Open_rb path) = True"
| "is_open_or_sleep (Sleep n) = True"
| "is_open_or_sleep e = False"

fun pauses_between :: "string list \<Rightarrow> event list" where
  "pauses_between [] = []"
| "pauses_between [p] = [Open_rb p]"
| "pauses_between (p # q # ps) = Open_rb p # Sleep 1 # pauses_between (q # ps)"

section \<open>A concrete world for examples\<close>

text \<open>
  A server with one outcome for every POST and one for every GET, a file system in
  which every file but \<^verbatim>\<open>missing.jpg\<close> holds the bytes \<open>FF D8 FF\<close>, and no \<^verbatim>\<open>ADMIN_KEY\<close> in
  the environment.
\<close>

definition demo_response :: "int \<Rightarrow> string \<Rightarrow> exn + json \<Rightarrow> response" where
  "demo_response code body parsed =
     \<lparr>status_code = code, resp_text = body, resp_content = [], resp_json = parsed\<rparr>"

definition demo_env :: "exn + response \<Rightarrow> exn + response \<Rightarrow> unit env" where
  "demo_env post_outcome get_outcome =
     \<lparr>open_rb = (\<lambda>path w.
         (if path = ''missing.jpg'' then Inl (Exn OSError ''[Errno 2] No such file or directory'')
          else Inr [0xFF, 0xD8, 0xFF], w)),
      open_wb = (\<lambda>path bytes w. (Inr (), w)),
      session_post = (\<lambda>url payload timeout w. (post_outcome, w)),
      session_get = (\<lambda>url w. (get_outcome, w)),
      time_sleep = (\<lambda>secs w. w),
      path_name = (\<lambda>p. p),
      path_join = (\<lambda>d name. d @ ''/'' @ name)\<rparr>"

definition demo_sdk :: sdk where
  "demo_sdk = init (\<lambda>name. None) ''http://host/'' None"

definition not_json :: "exn + json" where
  "not_json = Inl (Exn JSONDecodeError ''Expecting value: line 1 column 1 (char 0)'')"

definition read_timeout :: exn where
  "read_timeout = Exn RequestException ''Read timed out. (read timeout=300)''"

section \<open>Base64 round trip\<close>

lemma index_of_nth: "distinct xs \<Longrightarrow> n < length xs \<Longrightarrow> index_of (xs ! n) xs = n"
proof (induction xs arbitrary: n)
  case Nil
  then show ?case by simp
next
  case (Cons x xs)
  then show ?case by (cases n) auto
qed

lemma length_table: "length table_b2a_base64 = 64"
  by (simp add: table_b2a_base64_def)

lemma distinct_table: "distinct table_b2a_base64"
  by (simp add: table_b2a_base64_def)

lemma pad_notin_table: "BASE64_PAD \<notin> set table_b2a_base64"
  by (simp add: table_b2a_base64_def BASE64_PAD_def)

lemma ascii_table: "list_all is_ascii table_b2a_base64"
  by (simp add: table_b2a_base64_def is_ascii_def)

lemma sextet_unat: "sextet v \<Longrightarrow> unat v < 64"
proof -
  assume "sextet v"
  then have "unat v = unat (take_bit 6 v)" by (simp add: sextet_def)
  also have "\<dots> = take_bit 6 (unat v)" by (simp add: unsigned_take_bit_eq)
  also have "\<dots> < 2 ^ 6" by (rule take_bit_nat_less_exp)
  finally show ?thesis by simp
qed

lemma b2a_in_table: "sextet v \<Longrightarrow> b2a v \<in> set table_b2a_base64"
  unfolding b2a_def by (rule nth_mem) (simp add: length_table sextet_unat)

lemma a2b_b2a: "sextet v \<Longrightarrow> a2b (b2a v) = Some v"
proof -
  assume v: "sextet v"
  then have u: "unat v < 64" by (rule sextet_unat)
  then have "index_of (table_b2a_base64 ! unat v) table_b2a_base64 = unat v"
    by (simp add: index_of_nth distinct_table length_table)
  with u show ?thesis by (simp add: a2b_def b2a_def)
qed

lemma b2a_not_pad: "sextet v \<Longrightarrow> b2a v \<noteq> BASE64_PAD"
  using b2a_in_table [of v] pad_notin_table by auto

lemma b2a_not_comma: "sextet v \<Longrightarrow> b2a v \<noteq> CHR '',''"
proof -
  have "CHR '','' \<notin> set table_b2a_base64" by (simp add: table_b2a_base64_def)
  then show "sextet v \<Longrightarrow> b2a v \<noteq> CHR '',''" using b2a_in_table [of v] by auto
qed

lemma b2a_ascii: "sextet v \<Longrightarrow> is_ascii (b2a v)"
  using b2a_in_table [of v] ascii_table by (simp add: list_all_iff)

lemma and_masks:
  "(x::byte) AND 3 = take_bit 2 x" "(x::byte) AND 15 = take_bit 4 x" "(x::byte) AND 63 = take_bit 6 x"
  by (simp_all add: take_bit_eq_mask mask_eq_exp_minus_1)

lemma sextet_1: "sextet (drop_bit 2 a)"
  unfolding sextet_def by (rule bit_word_eqI) (auto simp: bit_simps dest: bit_imp_le_length)

lemma sextet_2: "sextet (push_bit 4 (a AND 3) OR drop_bit 4 b)"
  unfolding sextet_def and_masks by (rule bit_word_eqI) (auto simp: bit_simps dest: bit_imp_le_length)

lemma sextet_2_last: "sextet (push_bit 4 (a AND 3))"
  unfolding sextet_def and_masks by (rule bit_word_eqI) (auto simp: bit_simps dest: bit_imp_le_length)

lemma sextet_3: "sextet (push_bit 2 (b AND 15) OR drop_bit 6 c)"
  unfolding sextet_def and_masks by (rule bit_word_eqI) (auto simp: bit_simps dest: bit_imp_le_length)

lemma sextet_3_last: "sextet (push_bit 2 (b AND 15))"
  unfolding sextet_def and_masks by (rule bit_word_eqI) (auto simp: bit_simps dest: bit_imp_le_length)

lemma sextet_4: "sextet (c AND 63)"
  unfolding sextet_def and_masks by (rule bit_word_eqI) (auto simp: bit_simps dest: bit_imp_le_length)

lemmas sextets = sextet_1 sextet_2 sextet_2_last sextet_3 sextet_3_last sextet_4

lemma Suc_Suc_diff2: "2 \<le> n \<Longrightarrow> Suc (Suc (n - 2)) = n"
  by simp

lemma byte_1:
  "push_bit 2 (drop_bit 2 a) OR drop_bit 4 (push_bit 4 (a AND 3) OR drop_bit 4 b) = (a::byte)"
  unfolding and_masks
proof (rule bit_word_eqI)
  fix n assume "n < LENGTH(8)"
  then show "bit (push_bit 2 (drop_bit 2 a)
                  OR drop_bit 4 (push_bit 4 (take_bit 2 a) OR drop_bit 4 b)) n = bit a n"
    by (cases "n < 2") (auto simp: bit_simps Suc_Suc_diff2 dest: bit_imp_le_length)
qed

lemma byte_1_last: "push_bit 2 (drop_bit 2 a) OR drop_bit 4 (push_bit 4 (a AND 3)) = (a::byte)"
  using byte_1 [of a 0] by simp

lemma byte_2:
  "push_bit 4 ((push_bit 4 (a AND 3) OR drop_bit 4 b) AND 15)
     OR drop_bit 2 (push_bit 2 (b AND 15) OR drop_bit 6 c) = (b::byte)"
  unfolding and_masks by (rule bit_word_eqI) (auto simp: bit_simps dest: bit_imp_le_length)

lemma byte_2_last:
  "push_bit 4 ((push_bit 4 (a AND 3) OR drop_bit 4 b) AND 15)
     OR drop_bit 2 (push_bit 2 (b AND 15)) = (b::byte)"
  unfolding and_masks by (rule bit_word_eqI) (auto simp: bit_simps dest: bit_imp_le_length)

lemma byte_3:
  "push_bit 6 ((push_bit 2 (b AND 15) OR drop_bit 6 c) AND 3) OR (c AND 63) = (c::byte)"
  unfolding and_masks by (rule bit_word_eqI) (auto simp: bit_simps dest: bit_imp_le_length)

lemmas bytes = byte_1 byte_1_last byte_2 byte_2_last byte_3

lemma a2b_base64_quad:
  assumes "sextet v1" "sextet v2" "sextet v3" "sextet v4"
  shows "a2b_base64 0 lc p out (b2a v1 # b2a v2 # b2a v3 # b2a v4 # rest)
         = a2b_base64 0 0 0
             (out @ [push_bit 2 v1 OR drop_bit 4 v2,
                     push_bit 4 (v2 AND 15) OR drop_bit 2 v3,
                     push_bit 6 (v3 AND 3) OR v4]) rest"
  using assms by (simp add: a2b_b2a b2a_not_pad)

lemma a2b_base64_two_bytes:
  assumes "sextet v1" "sextet v2" "sextet v3"
  shows "a2b_base64 0 lc p out [b2a v1, b2a v2, b2a v3, BASE64_PAD]
         = Inr (out @ [push_bit 2 v1 OR drop_bit 4 v2, push_bit 4 (v2 AND 15) OR drop_bit 2 v3])"
  using assms by (simp add: a2b_b2a b2a_not_pad)

lemma a2b_base64_one_byte:
  assumes "sextet v1" "sextet v2"
  shows "a2b_base64 0 lc p out [b2a v1, b2a v2, BASE64_PAD, BASE64_PAD]
         = Inr (out @ [push_bit 2 v1 OR drop_bit 4 v2])"
  using assms by (simp add: a2b_b2a b2a_not_pad)

lemma a2b_base64_b64encode: "a2b_base64 0 lc p out (b64encode bs) = Inr (out @ bs)"
proof (induction bs arbitrary: lc p out rule: b64encode.induct)
  case (1 a b c rest)
  have "a2b_base64 0 lc p out (b64encode (a # b # c # rest))
        = a2b_base64 0 lc p out
            (b2a (drop_bit 2 a) # b2a (push_bit 4 (a AND 3) OR drop_bit 4 b)
             # b2a (push_bit 2 (b AND 15) OR drop_bit 6 c) # b2a (c AND 63) # b64encode rest)"
    by (simp only: b64encode.simps append_Cons append_Nil)
  also have "\<dots> = a2b_base64 0 0 0 (out @ [a, b, c]) (b64encode rest)"
    unfolding a2b_base64_quad [OF sextet_1 sextet_2 sextet_3 sextet_4] byte_1 byte_2 byte_3 ..
  also have "\<dots> = Inr ((out @ [a, b, c]) @ rest)"
    by (rule "1.IH")
  finally show ?case by simp
next
  case (2 a b)
  have "a2b_base64 0 lc p out (b64encode [a, b])
        = a2b_base64 0 lc p out
            [b2a (drop_bit 2 a), b2a (push_bit 4 (a AND 3) OR drop_bit 4 b),
             b2a (push_bit 2 (b AND 15)), BASE64_PAD]"
    by (simp only: b64encode.simps)
  also have "\<dots> = Inr (out @ [a, b])"
    unfolding a2b_base64_two_bytes [OF sextet_1 sextet_2 sextet_3_last] byte_1 byte_2_last ..
  finally show ?case .
next
  case (3 a)
  have "a2b_base64 0 lc p out (b64encode [a])
        = a2b_base64 0 lc p out
            [b2a (drop_bit 2 a), b2a (push_bit 4 (a AND 3)), BASE64_PAD, BASE64_PAD]"
    by (simp only: b64encode.simps)
  also have "\<dots> = Inr (out @ [a])"
    unfolding a2b_base64_one_byte [OF sextet_1 sextet_2_last] byte_1_last ..
  finally show ?case .
next
  case 4
  show ?case by simp
qed

lemma ascii_b64encode: "list_all is_ascii (b64encode bs)"
proof -
  have pad: "is_ascii BASE64_PAD" by (simp add: is_ascii_def BASE64_PAD_def)
  show ?thesis
    by (induction bs rule: b64encode.induct)
       (simp_all only: b64encode.simps list.pred_inject append_Cons append_Nil b2a_ascii sextets pad simp_thms)
qed

lemma b64decode_b64encode: "b64decode (b64encode bs) = Inr bs"
  by (simp add: b64decode_def ascii_b64encode a2b_base64_b64encode)

lemma split1_data_url: "split1 CHR '','' (image_data_url bytes) = [''data:image/jpeg;base64'', b64encode bytes]"
  by (simp add: split1_def image_data_url_def)

text \<open>
  Claim C2: for every byte sequence, the data URI that \<^verbatim>\<open>enhance_image\<close> builds from it
  decodes back to the same bytes when the text after the first comma is base64-decoded, as
  the inline branch of \<^verbatim>\<open>save_enhanced_image\<close> does; and the bytes \<open>FF D8 FF\<close> give exactly
  \<^verbatim>\<open>data:image/jpeg;base64,/9j/\<close>.
\<close>

theorem data_url_round_trip:
  "decode_data_url (image_data_url bytes) = Inr bytes
   \<and> image_data_url [0xFF, 0xD8, 0xFF] = ''data:image/jpeg;base64,/9j/''"
proof
  show "decode_data_url (image_data_url bytes) = Inr bytes"
    by (simp add: decode_data_url_def split1_data_url b64decode_b64encode)
  have "b64encode [0xFF, 0xD8, 0xFF] = ''/9j/''"
    by (simp add: b2a_def table_b2a_base64_def)
  then show "image_data_url [0xFF, 0xD8, 0xFF] = ''data:image/jpeg;base64,/9j/''"
    by (simp add: image_data_url_def)
qed

section \<open>Responses with a status other than 200\<close>

lemma enhance_image_non_200:
  assumes "open_rb E image_path w = (Inr bytes, w1)"
    and "session_post E (base_url self @ ''/api/enhance'')
           (JObj [(''image'', JStr (image_data_url bytes)), (''model'', JStr model),
                  (''options'', or_empty_dict options)]) 300 w1 = (Inr response, w2)"
    and "status_code response \<noteq> 200"
  shows "fst (enhance_image E self image_path model options (w, tr))
         = Inr (error_dict (''Enhancement failed: '' @ str_int (status_code response)
                            @ '' - '' @ resp_text response))"
  using assms by (simp add: enhance_image_def enhance_image_try_def Let_def)

lemma admin_command_non_200:
  assumes "session_post E (base_url self @ ''/api/admin'')
           (JObj [(''command'', JStr command), (''args'', or_empty_dict args),
                  (''adminKey'', JStr (admin_key self))]) 60 w = (Inr response, w1)"
    and "status_code response \<noteq> 200"
  shows "fst (admin_command E self command args (w, tr))
         = Inr (error_dict (''Admin command failed: '' @ str_int (status_code response)
                            @ '' - '' @ resp_text response))"
  using assms by (simp add: admin_command_def admin_command_try_def Let_def)

lemma classify_image_non_200:
  assumes "open_rb E image_path w = (Inr bytes, w1)"
    and "session_post E (base_url self @ ''/api/classify'')
           (JObj [(''image'', JStr (image_data_url bytes))]) 60 w1 = (Inr response, w2)"
    and "status_code response \<noteq> 200"
  shows "fst (classify_image E self image_path (w, tr))
         = Inr (error_dict (''Classification failed: '' @ str_int (status_code response)))"
  using assms by (simp add: classify_image_def classify_image_try_def Let_def)

lemma demo_sdk_eq: "demo_sdk = \<lparr>base_url = ''http://host'', admin_key = ''dev-admin-key''\<rparr>"
  by (simp add: demo_sdk_def init_def rstrip_def getenv_def)

lemma str_int_500: "str_int 500 = ''500''"
  by code_simp

text \<open>
  Claim C1: every mediator operation answers a response whose status is not 200 with an
  \<^verbatim>\<open>error\<close> result whose message holds both the status code and the body text.
  \<^verbatim>\<open>enhance_image\<close> and \<^verbatim>\<open>_admin_command\<close> do (\<open>enhance_image_non_200\<close>,
  \<open>admin_command_non_200\<close>). \<^verbatim>\<open>classify_image\<close>
  returns an \<^verbatim>\<open>error\<close> result too, but its message holds the status code only: on a 500
  response with body \<^verbatim>\<open>boom\<close> the message is \<^verbatim>\<open>Classification failed: 500\<close>.
\<close>

theorem classify_image_omits_body:
  "fst (classify_image (demo_env (Inr (demo_response 500 ''boom'' not_json))
                                 (Inr (demo_response 404 [] not_json)))
          demo_sdk ''photo.jpg'' ((), []))
     = Inr (JObj [(''error'', JStr ''Classification failed: 500'')])
   \<and> \<not> str_contains ''boom'' ''Classification failed: 500''"
  by (simp add: classify_image_def classify_image_try_def demo_env_def demo_response_def
        error_dict_def str_int_500 demo_sdk_eq Let_def image_data_url_def)

section \<open>No exception leaves a mediator operation\<close>

text \<open>
  Claim C5: whatever the file system and the server do (unreadable file, transport error,
  timeout, body that is not JSON), \<^verbatim>\<open>enhance_image\<close>, \<^verbatim>\<open>classify_image\<close> and
  \<^verbatim>\<open>_admin_command\<close> return a value and raise nothing: an exception raised inside the
  \<^verbatim>\<open>try\<close> body comes back as an \<^verbatim>\<open>error\<close> result carrying its text.
\<close>

theorem mediator_never_raises:
  "(\<exists>r. fst (enhance_image E self image_path model options s) = Inr r)
   \<and> (\<exists>r. fst (classify_image E self image_path s) = Inr r)
   \<and> (\<exists>r. fst (admin_command E self command args s) = Inr r)
   \<and> fst (enhance_image E self image_path model options s)
       = Inr (case fst (enhance_image_try E self image_path model options s) of
                Inr r \<Rightarrow> r
              | Inl e \<Rightarrow> error_dict (''Error enhancing image: '' @ str_exn e))
   \<and> fst (classify_image E self image_path s)
       = Inr (case fst (classify_image_try E self image_path s) of
                Inr r \<Rightarrow> r
              | Inl e \<Rightarrow> error_dict (''Error classifying image: '' @ str_exn e))
   \<and> fst (admin_command E self command args s)
       = Inr (case fst (admin_command_try E self command args s) of
                Inr r \<Rightarrow> r
              | Inl e \<Rightarrow> error_dict (''Error executing admin command: '' @ str_exn e))"
  by (simp add: enhance_image_def classify_image_def admin_command_def Let_def
        split: prod.splits sum.splits)

theorem mediator_never_raises_witness:
  "fst (enhance_image (demo_env (Inl read_timeout) (Inl read_timeout)) demo_sdk
          ''photo.jpg'' ''m'' None ((), []))
     = Inr (JObj [(''error'', JStr ''Error enhancing image: Read timed out. (read timeout=300)'')])
   \<and> fst (enhance_image (demo_env (Inl read_timeout) (Inl read_timeout)) demo_sdk
          ''missing.jpg'' ''m'' None ((), []))
     = Inr (JObj [(''error'', JStr ''Error enhancing image: [Errno 2] No such file or directory'')])
   \<and> fst (classify_image (demo_env (Inr (demo_response 200 ''<html>'' not_json)) (Inl read_timeout))
          demo_sdk ''photo.jpg'' ((), []))
     = Inr (JObj [(''error'',
                   JStr ''Error classifying image: Expecting value: line 1 column 1 (char 0)'')])"
proof -
  have 1: "fst (enhance_image_try (demo_env (Inl read_timeout) (Inl read_timeout)) demo_sdk
                  ''photo.jpg'' ''m'' None ((), [])) = Inl read_timeout"
    by (simp add: enhance_image_try_def demo_env_def Let_def)
  have 2: "fst (enhance_image_try (demo_env (Inl read_timeout) (Inl read_timeout)) demo_sdk
                  ''missing.jpg'' ''m'' None ((), []))
           = Inl (Exn OSError ''[Errno 2] No such file or directory'')"
    by (simp add: enhance_image_try_def demo_env_def Let_def)
  have 3: "fst (classify_image_try (demo_env (Inr (demo_response 200 ''<html>'' not_json))
                  (Inl read_timeout)) demo_sdk ''photo.jpg'' ((), [])) = not_json"
    by (simp add: classify_image_try_def demo_env_def demo_response_def Let_def)
  have a: "fst (enhance_image (demo_env (Inl read_timeout) (Inl read_timeout)) demo_sdk
                  ''photo.jpg'' ''m'' None ((), []))
           = Inr (error_dict (''Error enhancing image: '' @ str_exn read_timeout))"
    using mediator_never_raises [of "demo_env (Inl read_timeout) (Inl read_timeout)" demo_sdk
            "''photo.jpg''" "''m''" None "((), [])" "''status''" None] 1
    by simp
  have b: "fst (enhance_image (demo_env (Inl read_timeout) (Inl read_timeout)) demo_sdk
                  ''missing.jpg'' ''m'' None ((), []))
           = Inr (error_dict (''Error enhancing image: ''
                              @ str_exn (Exn OSError ''[Errno 2] No such file or directory'')))"
    using mediator_never_raises [of "demo_env (Inl read_timeout) (Inl read_timeout)" demo_sdk
            "''missing.jpg''" "''m''" None "((), [])" "''status''" None] 2
    by simp
  have c: "fst (classify_image (demo_env (Inr (demo_response 200 ''<html>'' not_json))
                  (Inl read_timeout)) demo_sdk ''photo.jpg'' ((), []))
           = Inr (case not_json of
                    Inr r \<Rightarrow> r
                  | Inl e \<Rightarrow> error_dict (''Error classifying image: '' @ str_exn e))"
    using mediator_never_raises [of "demo_env (Inr (demo_response 200 ''<html>'' not_json))
            (Inl read_timeout)" demo_sdk "''photo.jpg''" "''m''" None "((), [])" "''status''" None] 3
    by simp
  from a b c show ?thesis
    by (simp add: read_timeout_def not_json_def error_dict_def)
qed

section \<open>The unused \<^verbatim>\<open>max_concurrent\<close>\<close>

text \<open>
  Claim C8: \<^verbatim>\<open>batch_enhance\<close> gives the same results, the same effects in the same order and
  the same final world for any two values of \<^verbatim>\<open>max_concurrent\<close>.
\<close>

theorem batch_enhance_ignores_max_concurrent:
  "batch_enhance E self image_paths model options max_concurrent s
   = batch_enhance E self image_paths model options max_concurrent' s"
  by (simp add: batch_enhance_def Let_def)

section \<open>The constructor: base URL and admin key\<close>

lemma rstrip_snoc: "rstrip ch (s @ [ch]) = rstrip ch s"
  by (simp add: rstrip_def)

lemma rstrip_decomp: "\<exists>n. s = rstrip ch s @ replicate n ch"
proof -
  have "rev s = takeWhile (\<lambda>c. c = ch) (rev s) @ dropWhile (\<lambda>c. c = ch) (rev s)"
    by simp
  then have "s = rev (dropWhile (\<lambda>c. c = ch) (rev s)) @ rev (takeWhile (\<lambda>c. c = ch) (rev s))"
    by (metis rev_append rev_rev_ident)
  moreover have "rev (takeWhile (\<lambda>c. c = ch) (rev s))
                 = replicate (length (takeWhile (\<lambda>c. c = ch) (rev s))) ch"
  proof -
    have "\<forall>x \<in> set (rev (takeWhile (\<lambda>c. c = ch) (rev s))). x = ch"
      by (auto dest: set_takeWhileD)
    then show ?thesis by (metis (full_types) length_rev replicate_eqI)
  qed
  ultimately show ?thesis unfolding rstrip_def by metis
qed

lemma rstrip_not_endswith: "\<not> endswith (rstrip ch s) [ch]"
proof
  let ?r = "dropWhile (\<lambda>c. c = ch) (rev s)"
  assume e: "endswith (rstrip ch s) [ch]"
  then have ne: "rstrip ch s \<noteq> []" by (auto simp: endswith_def)
  with e have "last (rstrip ch s) = ch"
    by (metis endswith_def last_drop last_snoc append_Nil diff_less length_greater_0_conv
          less_numeral_extra(1) list.size(3,4) One_nat_def add.left_neutral)
  moreover have "last (rstrip ch s) = hd ?r" using ne by (simp add: rstrip_def last_rev)
  moreover have "hd ?r \<noteq> ch" using ne hd_dropWhile [of "\<lambda>c. c = ch" "rev s"]
    by (simp add: rstrip_def)
  ultimately show False by simp
qed

lemma post_urls_append: "post_urls (xs @ ys) = post_urls xs @ post_urls ys"
  by (induction xs rule: post_urls.induct) simp_all

lemma enhance_image_post_urls:
  "set (post_urls (snd (snd (enhance_image E self image_path model options (w, tr)))))
   \<subseteq> set (post_urls tr) \<union> {base_url self @ ''/api/enhance''}"
  by (auto simp: enhance_image_def enhance_image_try_def Let_def post_urls_append
        split: prod.splits sum.splits if_splits)

lemma classify_image_post_urls:
  "set (post_urls (snd (snd (classify_image E self image_path (w, tr)))))
   \<subseteq> set (post_urls tr) \<union> {base_url self @ ''/api/classify''}"
  by (auto simp: classify_image_def classify_image_try_def Let_def post_urls_append
        split: prod.splits sum.splits if_splits)

lemma admin_command_trace:
  "snd (snd (admin_command E self command args (w, tr)))
   = tr @ [Post (base_url self @ ''/api/admin'')
             (JObj [(''command'', JStr command), (''args'', or_empty_dict args),
                    (''adminKey'', JStr (admin_key self))]) 60]"
  by (auto simp: admin_command_def admin_command_try_def Let_def
        split: prod.splits sum.splits if_splits)

text \<open>
  Claim C9: the constructor stores the base URL without its trailing slashes (the argument
  is the stored text followed by slashes only, and the stored text does not end in a
  slash); every URL posted to by \<^verbatim>\<open>enhance_image\<close>, \<^verbatim>\<open>classify_image\<close> and
  \<^verbatim>\<open>_admin_command\<close> is the stored text, one slash, and \<^verbatim>\<open>api/...\<close>; and a base URL with
  one more trailing slash, such as \<^verbatim>\<open>http://host/\<close> for \<^verbatim>\<open>http://host\<close>, gives the same SDK
  object, hence the same request URLs.
\<close>

theorem base_url_stripped:
  "(\<exists>n. base_url_arg = base_url (init environ base_url_arg key) @ replicate n CHR ''/'')
   \<and> \<not> endswith (base_url (init environ base_url_arg key)) ''/''
   \<and> set (post_urls (snd (snd (enhance_image E (init environ base_url_arg key)
                                  image_path model options (w, tr)))))
       \<subseteq> set (post_urls tr) \<union> {base_url (init environ base_url_arg key) @ ''/'' @ ''api/enhance''}
   \<and> set (post_urls (snd (snd (classify_image E (init environ base_url_arg key)
                                  image_path (w, tr)))))
       \<subseteq> set (post_urls tr) \<union> {base_url (init environ base_url_arg key) @ ''/'' @ ''api/classify''}
   \<and> post_urls (snd (snd (admin_command E (init environ base_url_arg key) command args (w, tr))))
       = post_urls tr @ [base_url (init environ base_url_arg key) @ ''/'' @ ''api/admin'']
   \<and> init environ (base_url_arg @ ''/'') key = init environ base_url_arg key
   \<and> init environ ''http://host/'' key = init environ ''http://host'' key"
proof -
  have 1: "\<exists>n. base_url_arg = base_url (init environ base_url_arg key) @ replicate n CHR ''/''"
    using rstrip_decomp [of base_url_arg "CHR ''/''"] by (simp add: init_def)
  have 2: "\<not> endswith (base_url (init environ base_url_arg key)) ''/''"
    using rstrip_not_endswith [of "CHR ''/''" base_url_arg] by (simp add: init_def)
  have 3: "init environ (b @ ''/'') key = init environ b key" for b
    using rstrip_snoc [of "CHR ''/''" b] by (simp add: init_def)
  have 4: "init environ ''http://host/'' key = init environ ''http://host'' key"
    using 3 [of "''http://host''"] by simp
  show ?thesis
    using 1 2 3 [of base_url_arg] 4 enhance_image_post_urls [of E "init environ base_url_arg key"]
      classify_image_post_urls [of E "init environ base_url_arg key"]
    by (simp add: admin_command_trace post_urls_append)
qed

text \<open>
  Claim C10: with no \<^verbatim>\<open>admin_key\<close> argument or an empty one the SDK takes the value of
  \<^verbatim>\<open>ADMIN_KEY\<close> in the environment, or \<^verbatim>\<open>dev-admin-key\<close> when it is not set; a non-empty
  argument is kept; and the key chosen is what \<^verbatim>\<open>_admin_command\<close> sends as \<^verbatim>\<open>adminKey\<close>.
\<close>

theorem admin_key_choice:
  "admin_key (init environ base_url_arg None)
     = (case environ ''ADMIN_KEY'' of Some v \<Rightarrow> v | None \<Rightarrow> ''dev-admin-key'')
   \<and> admin_key (init environ base_url_arg (Some []))
     = (case environ ''ADMIN_KEY'' of Some v \<Rightarrow> v | None \<Rightarrow> ''dev-admin-key'')
   \<and> (k \<noteq> [] \<longrightarrow> admin_key (init environ base_url_arg (Some k)) = k)
   \<and> snd (snd (admin_command E self command args (w, tr)))
     = tr @ [Post (base_url self @ ''/api/admin'')
               (JObj [(''command'', JStr command), (''args'', or_empty_dict args),
                      (''adminKey'', JStr (admin_key self))]) 60]"
  by (simp add: init_def getenv_def admin_command_trace)

theorem admin_key_choice_witness:
  "(''secret'' \<noteq> [] \<and> admin_key (init (\<lambda>name. None) ''http://host'' (Some ''secret'')) = ''secret'')
   \<and> admin_key (init (\<lambda>name. None) ''http://host'' (Some [])) = ''dev-admin-key''
   \<and> admin_key (init (\<lambda>name. Some ''from-env'') ''http://host'' None) = ''from-env''"
  using admin_key_choice [of "\<lambda>name. None" "''http://host''" "''secret''"
          "demo_env (Inr (demo_response 200 [] not_json)) (Inr (demo_response 200 [] not_json))"
          demo_sdk "''status''" None "()" "[]"]
    admin_key_choice [of "\<lambda>name. Some ''from-env''" "''http://host''" "''secret''"
          "demo_env (Inr (demo_response 200 [] not_json)) (Inr (demo_response 200 [] not_json))"
          demo_sdk "''status''" None "()" "[]"]
  by simp

section \<open>Saving: missing field, inline data, download\<close>

text \<open>
  Claim C4: on a result with no \<^verbatim>\<open>enhancedImage\<close> field, \<^verbatim>\<open>save_enhanced_image\<close> returns
  \<^verbatim>\<open>False\<close> having done nothing but log an error: the world is untouched, so no GET and
  no file write happened. For a dict the error logged is \<^verbatim>\<open>No enhanced image in result\<close>.
\<close>

theorem save_without_enhanced_image:
  assumes "\<forall>v. py_getitem result ''enhancedImage'' \<noteq> Inr v"
  shows "\<exists>msg. save_enhanced_image E self result output_path (w, tr)
                 = (False, (w, tr @ [Log ERROR msg]))
               \<and> (\<forall>kvs. result = JObj kvs \<longrightarrow> msg = ''No enhanced image in result'')"
proof (cases result)
  case (JObj kvs)
  with assms have "map_of kvs ''enhancedImage'' = None"
    by (cases "map_of kvs ''enhancedImage''") auto
  with JObj show ?thesis
    by (simp add: save_enhanced_image_def save_enhanced_image_try_def)
qed (simp_all add: save_enhanced_image_def save_enhanced_image_try_def)

theorem save_without_enhanced_image_witness:
  "(\<forall>v. py_getitem (JObj [(''status'', JStr ''done'')]) ''enhancedImage'' \<noteq> Inr v)
   \<and> save_enhanced_image (demo_env (Inr (demo_response 200 [] not_json)) (Inr (demo_response 200 [] not_json)))
        demo_sdk (JObj [(''status'', JStr ''done'')]) ''out.png'' ((), [])
      = (False, ((), [Log ERROR ''No enhanced image in result'']))"
proof -
  have h: "\<forall>v. py_getitem (JObj [(''status'', JStr ''done'')]) ''enhancedImage'' \<noteq> Inr v"
    by simp
  show ?thesis
    using h save_without_enhanced_image [OF h,
        of "demo_env (Inr (demo_response 200 [] not_json)) (Inr (demo_response 200 [] not_json))"
           demo_sdk "''out.png''" "()" "[]"]
    by auto
qed

text \<open>
  The claim C7 speaks of every payload that has the field, and says that a value not
  starting with \<^verbatim>\<open>data:\<close> is fetched with a GET. A value that is not a string has no
  \<^verbatim>\<open>startswith\<close>: for \<^verbatim>\<open>{"enhancedImage": null}\<close> the \<^verbatim>\<open>AttributeError\<close> is caught, the
  function returns \<^verbatim>\<open>False\<close>, and no request is made.
\<close>

theorem save_enhanced_image_null_counterexample:
  "map_of [(''enhancedImage'', JNull)] ''enhancedImage'' = Some JNull
   \<and> save_enhanced_image
        (demo_env (Inr (demo_response 200 [] not_json)) (Inr (demo_response 200 [] not_json)))
        demo_sdk (JObj [(''enhancedImage'', JNull)]) ''out.png'' ((), [])
      = (False, ((), [Log ERROR (''Error saving enhanced image: '' @ [CHR 0x27] @ ''NoneType''
                                 @ [CHR 0x27] @ '' object has no attribute '' @ [CHR 0x27]
                                 @ ''startswith'' @ [CHR 0x27])]))
   \<and> filter is_network
        (snd (snd (save_enhanced_image
           (demo_env (Inr (demo_response 200 [] not_json)) (Inr (demo_response 200 [] not_json)))
           demo_sdk (JObj [(''enhancedImage'', JNull)]) ''out.png'' ((), [])))) = []"
  by (simp add: save_enhanced_image_def save_enhanced_image_try_def)

text \<open>
  Claim C7, as the code has it: on a result that has the field \<^verbatim>\<open>enhancedImage\<close>.
  A string starting with \<^verbatim>\<open>data:\<close> is split at its first comma and the rest is
  base64-decoded, with no network request: the decoded bytes are written and the answer is
  \<^verbatim>\<open>True\<close>, or \<^verbatim>\<open>False\<close> when there is no comma, the text does not decode or the write
  fails. Any other string is fetched with one GET: \<^verbatim>\<open>False\<close> when the GET raises or its
  status is not 200, otherwise the response content is written and the answer is \<^verbatim>\<open>True\<close>
  (\<^verbatim>\<open>False\<close> when the write fails). A value that is not a string gives \<^verbatim>\<open>False\<close> with no
  request and no write. Each case is given with the world it leaves and the effects made.
\<close>

theorem save_enhanced_image_branches:
  assumes "map_of kvs ''enhancedImage'' = Some v"
  shows
    "(\<forall>enhanced_url. v = JStr enhanced_url \<and> startswith enhanced_url ''data:'' \<longrightarrow>
        filter is_network (snd (snd (save_enhanced_image E self (JObj kvs) output_path (w, tr))))
          = filter is_network tr
        \<and> (split_first CHR '','' enhanced_url = None \<longrightarrow>
              save_enhanced_image E self (JObj kvs) output_path (w, tr)
              = (False, (w, tr @ [Log ERROR (''Error saving enhanced image: ''
                     @ ''not enough values to unpack (expected 2, got 1)'')])))
        \<and> (\<forall>header data. split_first CHR '','' enhanced_url = Some (header, data) \<longrightarrow>
              (\<forall>e. b64decode data = Inl e \<longrightarrow>
                 save_enhanced_image E self (JObj kvs) output_path (w, tr)
                 = (False, (w, tr @ [Log ERROR (''Error saving enhanced image: '' @ str_exn e)])))
              \<and> (\<forall>image_data w'.
                    b64decode data = Inr image_data
                    \<and> open_wb E output_path image_data w = (Inr (), w') \<longrightarrow>
                    save_enhanced_image E self (JObj kvs) output_path (w, tr)
                    = (True, (w', tr @ [Open_wb output_path image_data,
                                        Log INFO (''Enhanced image saved to: '' @ output_path)])))
              \<and> (\<forall>image_data e w'.
                    b64decode data = Inr image_data
                    \<and> open_wb E output_path image_data w = (Inl e, w') \<longrightarrow>
                    save_enhanced_image E self (JObj kvs) output_path (w, tr)
                    = (False, (w', tr @ [Open_wb output_path image_data,
                         Log ERROR (''Error saving enhanced image: '' @ str_exn e)])))))
     \<and> (\<forall>enhanced_url. v = JStr enhanced_url \<and> \<not> startswith enhanced_url ''data:'' \<longrightarrow>
          (\<exists>evs. snd (snd (save_enhanced_image E self (JObj kvs) output_path (w, tr)))
                   = tr @ Get enhanced_url # evs)
          \<and> (\<forall>e w'. session_get E enhanced_url w = (Inl e, w') \<longrightarrow>
                save_enhanced_image E self (JObj kvs) output_path (w, tr)
                = (False, (w', tr @ [Get enhanced_url,
                     Log ERROR (''Error saving enhanced image: '' @ str_exn e)])))
          \<and> (\<forall>response w'.
                session_get E enhanced_url w = (Inr response, w')
                \<and> status_code response \<noteq> 200 \<longrightarrow>
                save_enhanced_image E self (JObj kvs) output_path (w, tr)
                = (False, (w', tr @ [Get enhanced_url,
                     Log ERROR (''Failed to download enhanced image: ''
                                @ str_int (status_code response))])))
          \<and> (\<forall>response w' w''.
                session_get E enhanced_url w = (Inr response, w')
                \<and> status_code response = 200
                \<and> open_wb E output_path (resp_content response) w' = (Inr (), w'') \<longrightarrow>
                save_enhanced_image E self (JObj kvs) output_path (w, tr)
                = (True, (w'', tr @ [Get enhanced_url, Open_wb output_path (resp_content response),
                                     Log INFO (''Enhanced image saved to: '' @ output_path)])))
          \<and> (\<forall>response e w' w''.
                session_get E enhanced_url w = (Inr response, w')
                \<and> status_code response = 200
                \<and> open_wb E output_path (resp_content response) w' = (Inl e, w'') \<longrightarrow>
                save_enhanced_image E self (JObj kvs) output_path (w, tr)
                = (False, (w'', tr @ [Get enhanced_url, Open_wb output_path (resp_content response),
                     Log ERROR (''Error saving enhanced image: '' @ str_exn e)]))))
     \<and> ((\<forall>enhanced_url. v \<noteq> JStr enhanced_url) \<longrightarrow>
          save_enhanced_image E self (JObj kvs) output_path (w, tr)
          = (False, (w, tr @ [Log ERROR (''Error saving enhanced image: '' @ [CHR 0x27]
                @ type_name v @ [CHR 0x27] @ '' object has no attribute '' @ [CHR 0x27]
                @ ''startswith'' @ [CHR 0x27])])))"
proof (intro conjI allI impI)
  fix enhanced_url
  assume "v = JStr enhanced_url \<and> startswith enhanced_url ''data:''"
  with assms show
    "filter is_network (snd (snd (save_enhanced_image E self (JObj kvs) output_path (w, tr))))
     = filter is_network tr"
    by (auto simp: save_enhanced_image_def save_enhanced_image_try_def write_image_def
          split: sum.splits prod.splits)
next
  fix enhanced_url
  assume "v = JStr enhanced_url \<and> startswith enhanced_url ''data:''"
    and "split_first CHR '','' enhanced_url = None"
  with assms show
    "save_enhanced_image E self (JObj kvs) output_path (w, tr)
     = (False, (w, tr @ [Log ERROR (''Error saving enhanced image: ''
            @ ''not enough values to unpack (expected 2, got 1)'')]))"
    by (simp add: save_enhanced_image_def save_enhanced_image_try_def decode_data_url_def
          split1_def)
next
  fix enhanced_url header data e
  assume "v = JStr enhanced_url \<and> startswith enhanced_url ''data:''"
    and "split_first CHR '','' enhanced_url = Some (header, data)"
    and "b64decode data = Inl e"
  with assms show
    "save_enhanced_image E self (JObj kvs) output_path (w, tr)
     = (False, (w, tr @ [Log ERROR (''Error saving enhanced image: '' @ str_exn e)]))"
    by (simp add: save_enhanced_image_def save_enhanced_image_try_def decode_data_url_def
          split1_def)
next
  fix enhanced_url header data image_data w'
  assume "v = JStr enhanced_url \<and> startswith enhanced_url ''data:''"
    and "split_first CHR '','' enhanced_url = Some (header, data)"
    and "b64decode data = Inr image_data \<and> open_wb E output_path image_data w = (Inr (), w')"
  with assms show
    "save_enhanced_image E self (JObj kvs) output_path (w, tr)
     = (True, (w', tr @ [Open_wb output_path image_data,
                         Log INFO (''Enhanced image saved to: '' @ output_path)]))"
    by (simp add: save_enhanced_image_def save_enhanced_image_try_def decode_data_url_def
          split1_def write_image_def)
next
  fix enhanced_url header data image_data e w'
  assume "v = JStr enhanced_url \<and> startswith enhanced_url ''data:''"
    and "split_first CHR '','' enhanced_url = Some (header, data)"
    and "b64decode data = Inr image_data \<and> open_wb E output_path image_data w = (Inl e, w')"
  with assms show
    "save_enhanced_image E self (JObj kvs) output_path (w, tr)
     = (False, (w', tr @ [Open_wb output_path image_data,
          Log ERROR (''Error saving enhanced image: '' @ str_exn e)]))"
    by (simp add: save_enhanced_image_def save_enhanced_image_try_def decode_data_url_def
          split1_def write_image_def)
next
  fix enhanced_url
  assume "v = JStr enhanced_url \<and> \<not> startswith enhanced_url ''data:''"
  with assms show
    "\<exists>evs. snd (snd (save_enhanced_image E self (JObj kvs) output_path (w, tr)))
           = tr @ Get enhanced_url # evs"
    by (auto simp: save_enhanced_image_def save_enhanced_image_try_def write_image_def
          split: sum.splits prod.splits)
next
  fix enhanced_url e w'
  assume "v = JStr enhanced_url \<and> \<not> startswith enhanced_url ''data:''"
    and "session_get E enhanced_url w = (Inl e, w')"
  with assms show
    "save_enhanced_image E self (JObj kvs) output_path (w, tr)
     = (False, (w', tr @ [Get enhanced_url,
          Log ERROR (''Error saving enhanced image: '' @ str_exn e)]))"
    by (simp add: save_enhanced_image_def save_enhanced_image_try_def)
next
  fix enhanced_url response w'
  assume "v = JStr enhanced_url \<and> \<not> startswith enhanced_url ''data:''"
    and "session_get E enhanced_url w = (Inr response, w') \<and> status_code response \<noteq> 200"
  with assms show
    "save_enhanced_image E self (JObj kvs) output_path (w, tr)
     = (False, (w', tr @ [Get enhanced_url,
          Log ERROR (''Failed to download enhanced image: '' @ str_int (status_code response))]))"
    by (simp add: save_enhanced_image_def save_enhanced_image_try_def)
next
  fix enhanced_url response w' w''
  assume "v = JStr enhanced_url \<and> \<not> startswith enhanced_url ''data:''"
    and "session_get E enhanced_url w = (Inr response, w') \<and> status_code response = 200
         \<and> open_wb E output_path (resp_content response) w' = (Inr (), w'')"
  with assms show
    "save_enhanced_image E self (JObj kvs) output_path (w, tr)
     = (True, (w'', tr @ [Get enhanced_url, Open_wb output_path (resp_content response),
                          Log INFO (''Enhanced image saved to: '' @ output_path)]))"
    by (simp add: save_enhanced_image_def save_enhanced_image_try_def write_image_def)
next
  fix enhanced_url response e w' w''
  assume "v = JStr enhanced_url \<and> \<not> startswith enhanced_url ''data:''"
    and "session_get E enhanced_url w = (Inr response, w') \<and> status_code response = 200
         \<and> open_wb E output_path (resp_content response) w' = (Inl e, w'')"
  with assms show
    "save_enhanced_image E self (JObj kvs) output_path (w, tr)
     = (False, (w'', tr @ [Get enhanced_url, Open_wb output_path (resp_content response),
          Log ERROR (''Error saving enhanced image: '' @ str_exn e)]))"
    by (simp add: save_enhanced_image_def save_enhanced_image_try_def write_image_def)
next
  assume "\<forall>enhanced_url. v \<noteq> JStr enhanced_url"
  with assms show
    "save_enhanced_image E self (JObj kvs) output_path (w, tr)
     = (False, (w, tr @ [Log ERROR (''Error saving enhanced image: '' @ [CHR 0x27]
           @ type_name v @ [CHR 0x27] @ '' object has no attribute '' @ [CHR 0x27]
           @ ''startswith'' @ [CHR 0x27])]))"
    by (cases v) (simp_all add: save_enhanced_image_def save_enhanced_image_try_def)
qed

theorem save_enhanced_image_branches_witness:
  "save_enhanced_image
     (demo_env (Inr (demo_response 200 [] not_json)) (Inr (demo_response 404 [] not_json)))
     demo_sdk (JObj [(''enhancedImage'', JStr ''data:image/png;base64,/9j/'')]) ''out.png'' ((), [])
   = (True, ((), [Open_wb ''out.png'' [0xFF, 0xD8, 0xFF],
                  Log INFO (''Enhanced image saved to: '' @ ''out.png'')]))
   \<and> save_enhanced_image
       (demo_env (Inr (demo_response 200 [] not_json)) (Inr (demo_response 404 [] not_json)))
       demo_sdk (JObj [(''enhancedImage'', JStr ''http://cdn/x.png'')]) ''out.png'' ((), [])
     = (False, ((), [Get ''http://cdn/x.png'',
                     Log ERROR (''Failed to download enhanced image: '' @ str_int 404)]))
   \<and> save_enhanced_image
       (demo_env (Inr (demo_response 200 [] not_json)) (Inr (demo_response 200 [] not_json)))
       demo_sdk (JObj [(''enhancedImage'', JStr ''http://cdn/x.png'')]) ''out.png'' ((), [])
     = (True, ((), [Get ''http://cdn/x.png'', Open_wb ''out.png'' [],
                    Log INFO (''Enhanced image saved to: '' @ ''out.png'')]))
   \<and> save_enhanced_image
       (demo_env (Inr (demo_response 200 [] not_json)) (Inr (demo_response 200 [] not_json)))
       demo_sdk (JObj [(''enhancedImage'', JInt 5)]) ''out.png'' ((), [])
     = (False, ((), [Log ERROR (''Error saving enhanced image: '' @ [CHR 0x27] @ ''int''
                                @ [CHR 0x27] @ '' object has no attribute '' @ [CHR 0x27]
                                @ ''startswith'' @ [CHR 0x27])]))"
proof -
  let ?E = "demo_env (Inr (demo_response 200 [] not_json)) (Inr (demo_response 404 [] not_json))"
  let ?F = "demo_env (Inr (demo_response 200 [] not_json)) (Inr (demo_response 200 [] not_json))"
  have k1: "map_of [(''enhancedImage'', JStr ''data:image/png;base64,/9j/'')] ''enhancedImage''
            = Some (JStr ''data:image/png;base64,/9j/'')" by simp
  have d1: "JStr ''data:image/png;base64,/9j/'' = JStr ''data:image/png;base64,/9j/''
            \<and> startswith ''data:image/png;base64,/9j/'' ''data:''"
    by (simp add: startswith_def)
  have c1: "split_first CHR '','' ''data:image/png;base64,/9j/''
            = Some (''data:image/png;base64'', ''/9j/'')" by simp
  have p1: "b64decode ''/9j/'' = Inr [0xFF, 0xD8, 0xFF]
            \<and> open_wb ?E ''out.png'' [0xFF, 0xD8, 0xFF] () = (Inr (), ())"
    by (simp add: b64decode_def is_ascii_def a2b_def table_b2a_base64_def BASE64_PAD_def
          demo_env_def)
  have k2: "map_of [(''enhancedImage'', JStr ''http://cdn/x.png'')] ''enhancedImage''
            = Some (JStr ''http://cdn/x.png'')" by simp
  have d2: "JStr ''http://cdn/x.png'' = JStr ''http://cdn/x.png''
            \<and> \<not> startswith ''http://cdn/x.png'' ''data:''" by (simp add: startswith_def)
  have p2: "session_get ?E ''http://cdn/x.png'' () = (Inr (demo_response 404 [] not_json), ())
            \<and> status_code (demo_response 404 [] not_json) \<noteq> 200"
    by (simp add: demo_env_def demo_response_def)
  have p3: "session_get ?F ''http://cdn/x.png'' () = (Inr (demo_response 200 [] not_json), ())
            \<and> status_code (demo_response 200 [] not_json) = 200
            \<and> open_wb ?F ''out.png'' (resp_content (demo_response 200 [] not_json)) () = (Inr (), ())"
    by (simp add: demo_env_def demo_response_def)
  have k4: "map_of [(''enhancedImage'', JInt 5)] ''enhancedImage'' = Some (JInt 5)" by simp
  have d4: "\<forall>enhanced_url. JInt 5 \<noteq> JStr enhanced_url" by simp
  have s: "status_code (demo_response 404 [] not_json) = 404"
    "resp_content (demo_response 200 [] not_json) = []" by (simp_all add: demo_response_def)
  note t1 = save_enhanced_image_branches [OF k1, of ?E demo_sdk "''out.png''" "()" "[]"]
  note t2 = save_enhanced_image_branches [OF k2, of ?E demo_sdk "''out.png''" "()" "[]"]
  note t3 = save_enhanced_image_branches [OF k2, of ?F demo_sdk "''out.png''" "()" "[]"]
  note t4 = save_enhanced_image_branches [OF k4, of ?F demo_sdk "''out.png''" "()" "[]"]
  note inline = t1 [THEN conjunct1, THEN spec, THEN mp, OF d1]
  note decoded = inline [THEN conjunct2, THEN conjunct2, THEN spec, THEN spec, THEN mp, OF c1]
  note a = decoded [THEN conjunct2, THEN conjunct1, THEN spec, THEN spec, THEN mp, OF p1]
  note fetched = t2 [THEN conjunct2, THEN conjunct1, THEN spec, THEN mp, OF d2]
  note b = fetched [THEN conjunct2, THEN conjunct2, THEN conjunct1, THEN spec, THEN spec,
                    THEN mp, OF p2]
  note fetched_ok = t3 [THEN conjunct2, THEN conjunct1, THEN spec, THEN mp, OF d2]
  note c = fetched_ok [THEN conjunct2, THEN conjunct2, THEN conjunct2, THEN conjunct1,
                       THEN spec, THEN spec, THEN spec, THEN mp, OF p3]
  note d = t4 [THEN conjunct2, THEN conjunct2, THEN mp, OF d4]
  from a b c d s show ?thesis by simp
qed

section \<open>The batch loop\<close>

lemma enhance_image_returns:
  "\<exists>r w' tr'. enhance_image E self image_path model options (w, tr) = (Inr r, (w', tr'))"
  by (simp add: enhance_image_def Let_def split: prod.splits sum.splits)

lemma enhance_image_sleeps:
  "filter is_sleep (snd (snd (enhance_image E self image_path model options (w, tr))))
   = filter is_sleep tr"
  by (simp add: enhance_image_def enhance_image_try_def Let_def split: prod.splits sum.splits)

lemma enhance_image_last_log:
  "snd (snd (enhance_image E self image_path model options (w, tr))) \<noteq> []
   \<and> is_log (last (snd (snd (enhance_image E self image_path model options (w, tr)))))"
  by (simp add: enhance_image_def enhance_image_try_def Let_def split: prod.splits sum.splits)

lemma enhance_image_opens:
  "filter is_open_or_sleep (snd (snd (enhance_image E self image_path model options (w, tr))))
   = filter is_open_or_sleep tr @ [Open_rb image_path]"
  by (simp add: enhance_image_def enhance_image_try_def Let_def split: prod.splits sum.splits)

lemma batch_loop_spec:
  "i + length rest = n \<Longrightarrow>
   \<exists>rs w' tr'. batch_loop E self n model options i rest results (w, tr) = (Inr (results @ rs), (w', tr'))
     \<and> is_batch_run E self model options n i rest (w, tr) rs (w', tr')
     \<and> filter is_sleep tr' = filter is_sleep tr @ replicate (length rest - 1) (Sleep 1)
     \<and> filter is_open_or_sleep tr' = filter is_open_or_sleep tr @ pauses_between rest
     \<and> (rest \<noteq> [] \<longrightarrow> tr' \<noteq> [] \<and> is_log (last tr'))"
proof (induction rest arbitrary: i results w tr)
  case Nil
  then show ?case by simp
next
  case (Cons p ps)
  let ?tr1 = "tr @ [Log INFO (''Processing image '' @ str_nat (i + 1) @ ''/'' @ str_nat n @ '': '' @ p)]"
  obtain r w2 tr2 where e: "enhance_image E self p model options (w, ?tr1) = (Inr r, (w2, tr2))"
    using enhance_image_returns [of E self p model options w ?tr1] by blast
  have sl: "filter is_sleep tr2 = filter is_sleep tr"
    using enhance_image_sleeps [of E self p model options w ?tr1] e by simp
  have lg: "tr2 \<noteq> [] \<and> is_log (last tr2)"
    using enhance_image_last_log [of E self p model options w ?tr1] e by simp
  have op: "filter is_open_or_sleep tr2 = filter is_open_or_sleep tr @ [Open_rb p]"
    using enhance_image_opens [of E self p model options w ?tr1] e by simp
  let ?item = "\<lparr>item_image_path = p, item_result = r\<rparr>"
  show ?case
  proof (cases "ps = []")
    case True
    with Cons.prems have "\<not> int i < int n - 1" by auto
    with True e sl lg op show ?thesis by (simp add: Let_def)
  next
    case False
    with Cons.prems have lt: "int i < int n - 1" by (cases ps) auto
    from Cons.prems have "(i + 1) + length ps = n" by simp
    from Cons.IH [OF this, of "results @ [?item]" "time_sleep E 1 w2" "tr2 @ [Sleep 1]"]
    obtain rs w' tr' where
      b: "batch_loop E self n model options (i + 1) ps (results @ [?item])
            (time_sleep E 1 w2, tr2 @ [Sleep 1]) = (Inr ((results @ [?item]) @ rs), (w', tr'))"
      and a: "is_batch_run E self model options n (i + 1) ps
                (time_sleep E 1 w2, tr2 @ [Sleep 1]) rs (w', tr')"
      and s: "filter is_sleep tr' = filter is_sleep (tr2 @ [Sleep 1]) @ replicate (length ps - 1) (Sleep 1)"
      and o: "filter is_open_or_sleep tr'
              = filter is_open_or_sleep (tr2 @ [Sleep 1]) @ pauses_between ps"
      and l: "ps \<noteq> [] \<longrightarrow> tr' \<noteq> [] \<and> is_log (last tr')"
      by blast
    have "batch_loop E self n model options i (p # ps) results (w, tr)
          = (Inr (results @ ?item # rs), (w', tr'))"
      using e lt b by (simp add: Let_def)
    moreover have "is_batch_run E self model options n i (p # ps) (w, tr) (?item # rs) (w', tr')"
      using e a False by (simp add: Let_def)
    moreover have "filter is_sleep tr'
                   = filter is_sleep tr @ replicate (length (p # ps) - 1) (Sleep 1)"
    proof -
      from False obtain k where k: "length ps = Suc k" by (cases ps) auto
      with s sl show ?thesis by (simp add: replicate_append_same)
    qed
    moreover have "filter is_open_or_sleep tr'
                   = filter is_open_or_sleep tr @ pauses_between (p # ps)"
    proof -
      from False obtain q qs where "ps = q # qs" by (cases ps) auto
      with o op show ?thesis by simp
    qed
    moreover have "tr' \<noteq> [] \<and> is_log (last tr')" using l False by simp
    ultimately show ?thesis by blast
  qed
qed

lemma is_batch_run_Cons:
  "is_batch_run E self model options n i (p # ps) s items s' \<Longrightarrow>
   \<exists>item rest. items = item # rest
     \<and> item_image_path item = p
     \<and> fst (enhance_image E self p model options
              (logger INFO (''Processing image '' @ str_nat (i + 1) @ ''/'' @ str_nat n
                            @ '': '' @ p) s)) = Inr (item_result item)
     \<and> is_batch_run E self model options n (i + 1) ps
         (if ps = []
          then snd (enhance_image E self p model options
                      (logger INFO (''Processing image '' @ str_nat (i + 1) @ ''/'' @ str_nat n
                                    @ '': '' @ p) s))
          else do_sleep E 1
                 (snd (enhance_image E self p model options
                         (logger INFO (''Processing image '' @ str_nat (i + 1) @ ''/'' @ str_nat n
                                       @ '': '' @ p) s))))
         rest s'"
proof (cases items)
  case Nil
  assume "is_batch_run E self model options n i (p # ps) s items s'"
  with Nil show ?thesis by (simp only: is_batch_run.simps)
next
  case (Cons item rest)
  assume "is_batch_run E self model options n i (p # ps) s items s'"
  with Cons show ?thesis by (simp only: is_batch_run.simps Let_def) blast
qed

lemma is_batch_run_paths:
  "is_batch_run E self model options n i paths s items s' \<Longrightarrow> map item_image_path items = paths"
proof (induction paths arbitrary: i s items)
  case Nil
  then show ?case by simp
next
  case (Cons p ps)
  from is_batch_run_Cons [OF Cons.prems] obtain item rest s1 where
    "items = item # rest" "item_image_path item = p"
    "is_batch_run E self model options n (i + 1) ps s1 rest s'"
    by blast
  with Cons.IH [of "i + 1" s1 rest] show ?case by simp
qed

text \<open>A run determines its items and its final state: nothing else passes for a batch run.\<close>

lemma is_batch_run_unique:
  "is_batch_run E self model options n i paths s items s'
   \<Longrightarrow> is_batch_run E self model options n i paths s items2 s2
   \<Longrightarrow> items2 = items \<and> s2 = s'"
proof (induction paths arbitrary: i s items items2)
  case Nil
  then show ?case by simp
next
  case (Cons p ps)
  let ?e = "enhance_image E self p model options
              (logger INFO (''Processing image '' @ str_nat (i + 1) @ ''/'' @ str_nat n
                            @ '': '' @ p) s)"
  let ?s1 = "if ps = [] then snd ?e else do_sleep E 1 (snd ?e)"
  from is_batch_run_Cons [OF Cons.prems(1)] obtain item rest where
    i1: "items = item # rest" and p1: "item_image_path item = p"
    and e1: "fst ?e = Inr (item_result item)"
    and r1: "is_batch_run E self model options n (i + 1) ps ?s1 rest s'"
    by blast
  from is_batch_run_Cons [OF Cons.prems(2)] obtain item2 rest2 where
    i2: "items2 = item2 # rest2" and p2: "item_image_path item2 = p"
    and e2: "fst ?e = Inr (item_result item2)"
    and r2: "is_batch_run E self model options n (i + 1) ps ?s1 rest2 s2"
    by blast
  from p1 p2 e1 e2 have "item2 = item" by simp
  with Cons.IH [OF r1 r2] i1 i2 show ?case by simp
qed


text \<open>
  Claim C6: \<^verbatim>\<open>batch_enhance\<close> returns one item per path, in input order, each holding its
  path and the result \<^verbatim>\<open>enhance_image\<close> gave for it at that point of the run (the run is
  the one the specification describes, pauses included, and the closing log line follows
  it); it sleeps one second \<open>N - 1\<close> times for \<open>N\<close> paths (never for none), each pause
  falling between two consecutive items, and the last thing before the closing log line is
  a log line of the last item, not a pause.
\<close>

theorem batch_enhance_items_and_sleeps:
  "\<exists>results w0 tr0.
     batch_enhance E self image_paths model options max_concurrent (w, tr)
       = (Inr results, (w0, tr0 @ [Log INFO ''Batch enhancement completed'']))
     \<and> is_batch_run E self model options (length image_paths) 0 image_paths
         (w, tr @ [Log INFO (''Starting batch enhancement of '' @ str_nat (length image_paths)
                             @ '' images'')]) results (w0, tr0)
     \<and> map item_image_path results = image_paths
     \<and> filter is_sleep tr0 = filter is_sleep tr @ replicate (length image_paths - 1) (Sleep 1)
     \<and> filter is_open_or_sleep tr0 = filter is_open_or_sleep tr @ pauses_between image_paths
     \<and> (\<exists>evs lvl msg. tr0 = evs @ [Log lvl msg])"
proof -
  let ?tr0 = "tr @ [Log INFO (''Starting batch enhancement of '' @ str_nat (length image_paths) @ '' images'')]"
  have "0 + length image_paths = length image_paths" by simp
  from batch_loop_spec [OF this, of E self model options "[]" w ?tr0]
  obtain rs w' tr' where
    b: "batch_loop E self (length image_paths) model options 0 image_paths [] (w, ?tr0)
          = (Inr rs, (w', tr'))"
    and a: "is_batch_run E self model options (length image_paths) 0 image_paths (w, ?tr0) rs (w', tr')"
    and s: "filter is_sleep tr' = filter is_sleep ?tr0 @ replicate (length image_paths - 1) (Sleep 1)"
    and o: "filter is_open_or_sleep tr' = filter is_open_or_sleep ?tr0 @ pauses_between image_paths"
    and l: "image_paths \<noteq> [] \<longrightarrow> tr' \<noteq> [] \<and> is_log (last tr')"
    by auto
  have e: "batch_enhance E self image_paths model options max_concurrent (w, tr)
           = (Inr rs, (w', tr' @ [Log INFO ''Batch enhancement completed'']))"
    using b by (simp add: batch_enhance_def Let_def)
  have lg: "\<exists>evs lvl msg. tr' = evs @ [Log lvl msg]"
  proof (cases "image_paths = []")
    case True
    with b have "tr' = ?tr0" by simp
    then show ?thesis by blast
  next
    case False
    with l have ne: "tr' \<noteq> []" and il: "is_log (last tr')" by simp_all
    from il obtain lvl msg where "last tr' = Log lvl msg" by (cases "last tr'") simp_all
    with ne have "tr' = butlast tr' @ [Log lvl msg]" by (metis append_butlast_last_id)
    then show ?thesis by blast
  qed
  from e a s o lg is_batch_run_paths [OF a] show ?thesis by simp
qed

theorem batch_enhance_items_and_sleeps_witness:
  "\<exists>results w0 tr0.
     batch_enhance (demo_env (Inr (demo_response 500 ''boom'' not_json)) (Inl read_timeout))
       demo_sdk [''a.jpg'', ''missing.jpg''] ''m'' None 3 ((), [])
       = (Inr results, (w0, tr0 @ [Log INFO ''Batch enhancement completed'']))
     \<and> map item_image_path results = [''a.jpg'', ''missing.jpg'']
     \<and> filter is_sleep tr0 = [Sleep 1]
     \<and> filter is_open_or_sleep tr0 = [Open_rb ''a.jpg'', Sleep 1, Open_rb ''missing.jpg'']"
  using batch_enhance_items_and_sleeps
          [of "demo_env (Inr (demo_response 500 ''boom'' not_json)) (Inl read_timeout)"
              demo_sdk "[''a.jpg'', ''missing.jpg'']" "''m''" None 3 "()" "[]"]
  by auto

section \<open>The tally of the batch command\<close>








end
